theory Spec2Isabelle
  imports Complex_Main
begin

section \<open>Vectorial light-sheet simulation: the \<open>Microscope\<close> class of microscope.py\<close>

text \<open>
  Numbers. Python's \<open>int\<close> is \<^typ>\<open>int\<close>. A Python \<open>float\<close> that the user passes in
  (a numerical aperture, a refractive index, a pixel pitch, a wavelength, the SNR) is a
  \<^typ>\<open>real\<close>: rounding and overflow are idealised away, and a Python division by zero
  is the exception \<open>ZeroDivisionError\<close>, written out as a branch. Values held in NumPy
  arrays are modelled further below, where not-a-number matters.
\<close>

subsection \<open>Exceptions\<close>

datatype error =
    TypeError
  | ValueError
  | IndexError
  | ZeroDivisionError
  | AttributeError
  | UnboundLocalError

text \<open>
  A method mutates \<open>self\<close> and may raise after some attributes are already written. The
  outcome of a call is either \<open>Inr s\<close>, the object after a normal return, or
  \<open>Inl (e, s)\<close>, the exception together with the object as it is when \<open>e\<close> is raised.
\<close>

type_synonym 's outcome = "(error \<times> 's) + 's"

fun state_of :: "'s outcome \<Rightarrow> 's" where
  "state_of (Inl (e, s)) = s"
| "state_of (Inr s) = s"


subsection \<open>NumPy float64 values\<close>

text \<open>
  A value held in a NumPy array is a real number, an infinity or not-a-number. NumPy
  arithmetic never raises: a division by zero gives an infinity or not-a-number, a
  function outside its domain gives not-a-number, and not-a-number propagates. Rounding,
  overflow and the sign of zero are idealised away (a zero divisor counts as positive).
\<close>

datatype fl = Fin real | PInf | NInf | NaN

fun fl_sign :: "fl \<Rightarrow> real" where
  "fl_sign (Fin a) = sgn a"
| "fl_sign PInf = 1"
| "fl_sign NInf = - 1"
| "fl_sign NaN = 0"

definition inf_of :: "real \<Rightarrow> fl" where
  "inf_of s = (if 0 < s then PInf else if s < 0 then NInf else NaN)"

fun fl_neg :: "fl \<Rightarrow> fl" where
  "fl_neg (Fin a) = Fin (- a)"
| "fl_neg PInf = NInf"
| "fl_neg NInf = PInf"
| "fl_neg NaN = NaN"

fun fl_add :: "fl \<Rightarrow> fl \<Rightarrow> fl" where
  "fl_add NaN b = NaN"
| "fl_add a NaN = NaN"
| "fl_add (Fin a) (Fin b) = Fin (a + b)"
| "fl_add PInf NInf = NaN"
| "fl_add NInf PInf = NaN"
| "fl_add PInf b = PInf"
| "fl_add a PInf = PInf"
| "fl_add NInf b = NInf"
| "fl_add a NInf = NInf"

definition fl_sub :: "fl \<Rightarrow> fl \<Rightarrow> fl" where
  "fl_sub a b = fl_add a (fl_neg b)"

fun fl_mul :: "fl \<Rightarrow> fl \<Rightarrow> fl" where
  "fl_mul NaN b = NaN"
| "fl_mul a NaN = NaN"
| "fl_mul (Fin a) (Fin b) = Fin (a * b)"
| "fl_mul a b = inf_of (fl_sign a * fl_sign b)"

fun fl_div :: "fl \<Rightarrow> fl \<Rightarrow> fl" where
  "fl_div NaN b = NaN"
| "fl_div a NaN = NaN"
| "fl_div (Fin a) (Fin b) = (if b = 0 then inf_of (sgn a) else Fin (a / b))"
| "fl_div (Fin a) b = Fin 0"
| "fl_div a (Fin b) = inf_of (fl_sign a * (if b < 0 then - 1 else 1))"
| "fl_div a b = NaN"

fun fl_sqrt :: "fl \<Rightarrow> fl" where
  "fl_sqrt (Fin a) = (if a < 0 then NaN else Fin (sqrt a))"
| "fl_sqrt PInf = PInf"
| "fl_sqrt a = NaN"

fun fl_sin :: "fl \<Rightarrow> fl" where
  "fl_sin (Fin a) = Fin (sin a)"
| "fl_sin a = NaN"

fun fl_cos :: "fl \<Rightarrow> fl" where
  "fl_cos (Fin a) = Fin (cos a)"
| "fl_cos a = NaN"

fun fl_arcsin :: "fl \<Rightarrow> fl" where
  "fl_arcsin (Fin a) = (if - 1 \<le> a \<and> a \<le> 1 then Fin (arcsin a) else NaN)"
| "fl_arcsin a = NaN"

text \<open>The angle of the point \<open>(x, y)\<close>, in \<open>(-\<pi>, \<pi>]\<close>.\<close>

definition arctan2 :: "real \<Rightarrow> real \<Rightarrow> real" where
  "arctan2 y x =
     (if 0 < x then arctan (y / x)
      else if x < 0 then (if 0 \<le> y then arctan (y / x) + pi else arctan (y / x) - pi)
      else if 0 < y then pi / 2
      else if y < 0 then - pi / 2
      else 0)"

fun fl_arctan2 :: "fl \<Rightarrow> fl \<Rightarrow> fl" where
  "fl_arctan2 NaN x = NaN"
| "fl_arctan2 y NaN = NaN"
| "fl_arctan2 (Fin y) (Fin x) = Fin (arctan2 y x)"
| "fl_arctan2 (Fin y) PInf = Fin 0"
| "fl_arctan2 (Fin y) NInf = Fin (if y < 0 then - pi else pi)"
| "fl_arctan2 PInf (Fin x) = Fin (pi / 2)"
| "fl_arctan2 NInf (Fin x) = Fin (- pi / 2)"
| "fl_arctan2 PInf PInf = Fin (pi / 4)"
| "fl_arctan2 PInf NInf = Fin (3 * pi / 4)"
| "fl_arctan2 NInf PInf = Fin (- pi / 4)"
| "fl_arctan2 NInf NInf = Fin (- 3 * pi / 4)"

text \<open>Comparisons: every comparison with not-a-number is false.\<close>

fun fl_less :: "fl \<Rightarrow> fl \<Rightarrow> bool" where
  "fl_less NaN b = False"
| "fl_less a NaN = False"
| "fl_less (Fin a) (Fin b) = (a < b)"
| "fl_less a NInf = False"
| "fl_less NInf b = True"
| "fl_less PInf b = False"
| "fl_less a PInf = True"

fun fl_le :: "fl \<Rightarrow> fl \<Rightarrow> bool" where
  "fl_le NaN b = False"
| "fl_le a NaN = False"
| "fl_le (Fin a) (Fin b) = (a \<le> b)"
| "fl_le NInf b = True"
| "fl_le a NInf = False"
| "fl_le a PInf = True"
| "fl_le PInf b = False"

text \<open>\<open>a > b\<close> as the source writes it.\<close>

definition fl_greater :: "fl \<Rightarrow> fl \<Rightarrow> bool" where
  "fl_greater a b = fl_less b a"

text \<open>The largest float64, and \<open>np.nan_to_num\<close>.\<close>

definition float_max :: real where
  "float_max = (2 - 1 / 2 ^ 52) * 2 ^ 1023"

fun nan_to_num :: "fl \<Rightarrow> fl" where
  "nan_to_num (Fin a) = Fin a"
| "nan_to_num PInf = Fin float_max"
| "nan_to_num NInf = Fin (- float_max)"
| "nan_to_num NaN = Fin 0"

text \<open>\<open>np.max\<close> of the flattened array: not-a-number wins, otherwise the largest entry.\<close>

definition fl_max :: "fl \<Rightarrow> fl \<Rightarrow> fl" where
  "fl_max a b = (if a = NaN \<or> b = NaN then NaN else if fl_less a b then b else a)"

fun np_max :: "fl list \<Rightarrow> error + fl" where
  "np_max [] = Inl ValueError"
| "np_max (x # xs) = Inr (fold fl_max xs x)"

text \<open>
  Complex values are pairs of a real and an imaginary part; product and sum are the
  componentwise formulas, and the modulus is \<open>hypot\<close> (an infinite part wins over
  not-a-number).
\<close>

type_synonym cfl = "fl \<times> fl"



definition is_inf :: "fl \<Rightarrow> bool" where
  "is_inf a = (a = PInf \<or> a = NInf)"

fun cfl_abs :: "cfl \<Rightarrow> fl" where
  "cfl_abs (a, b) =
     (if is_inf a \<or> is_inf b then PInf
      else fl_sqrt (fl_add (fl_mul a a) (fl_mul b b)))"

fun cfl_nan_to_num :: "cfl \<Rightarrow> cfl" where
  "cfl_nan_to_num (a, b) = (nan_to_num a, nan_to_num b)"

subsection \<open>Arrays\<close>

text \<open>
  A three-dimensional array is a rectangular list of planes, a plane a list of rows; a
  two-dimensional array is a list of rows.
\<close>

type_synonym grid = "fl list list"

type_synonym volume = "fl list list list"

type_synonym cvolume = "cfl list list list"

definition flatten :: "'a list list list \<Rightarrow> 'a list" where
  "flatten v = concat (concat v)"

text \<open>The three axis lengths of a rectangular array.\<close>

definition dims :: "'a list list list \<Rightarrow> nat \<times> nat \<times> nat" where
  "dims v =
     (case v of
        [] \<Rightarrow> (0, 0, 0)
      | pl # _ \<Rightarrow> (case pl of [] \<Rightarrow> (length v, 0, 0) | r # _ \<Rightarrow> (length v, length pl, length r)))"

text \<open>\<open>np.pad(v, p)\<close>: \<open>p\<close> zeros before and after, along every axis.\<close>

definition pad1 :: "nat \<Rightarrow> 'a \<Rightarrow> 'a list \<Rightarrow> 'a list" where
  "pad1 p z xs = replicate p z @ xs @ replicate p z"

definition np_pad :: "nat \<Rightarrow> volume \<Rightarrow> volume" where
  "np_pad p v =
     (case dims v of (a, b, c) \<Rightarrow>
        let zrow = replicate (c + 2 * p) (Fin 0);
            zplane = replicate (b + 2 * p) zrow
        in pad1 p zplane (map (\<lambda>pl. pad1 p zrow (map (pad1 p (Fin 0)) pl)) v))"

text \<open>The slice \<open>xs[a:b]\<close> with integer bounds, and the same slice along all three axes.\<close>

definition clip_index :: "int \<Rightarrow> nat \<Rightarrow> nat" where
  "clip_index i n = nat (if i < 0 then max (i + int n) 0 else min i (int n))"

definition py_slice :: "int \<Rightarrow> int \<Rightarrow> 'a list \<Rightarrow> 'a list" where
  "py_slice a b xs =
     take (clip_index b (length xs) - clip_index a (length xs)) (drop (clip_index a (length xs)) xs)"

definition crop3 :: "int \<Rightarrow> int \<Rightarrow> 'a list list list \<Rightarrow> 'a list list list" where
  "crop3 a b v = map (\<lambda>pl. map (py_slice a b) (py_slice a b pl)) (py_slice a b v)"

text \<open>\<open>np.fft.fftshift\<close>: every axis is rotated by half its length.\<close>

definition shift1 :: "'a list \<Rightarrow> 'a list" where
  "shift1 xs = drop (length xs - length xs div 2) xs @ take (length xs - length xs div 2) xs"

definition fftshift :: "'a list list list \<Rightarrow> 'a list list list" where
  "fftshift v = shift1 (map (\<lambda>pl. shift1 (map shift1 pl)) v)"

definition np_abs :: "cvolume \<Rightarrow> volume" where
  "np_abs v = map (map (map cfl_abs)) v"

subsection \<open>Lens, Camera, Microscope\<close>

record lens =
  NA :: real
  RI :: real
  rot :: real

record camera =
  res :: int
  vox :: real
  offset :: real
  RMS :: real

text \<open>
  The attributes a method creates are optional fields: \<open>None\<close> is "attribute not set",
  and reading it raises \<open>AttributeError\<close>.
\<close>

record microscope =
  lenses :: "lens list"
  lam_ex :: real
  lam_em :: real
  k0 :: real
  path :: string
  cam :: "camera option"
  OTF_res :: "int option"
  SNR :: "real option"
  ls_opening :: "real option"
  ls_pol :: "string option"
  Ei_base :: "(real \<times> real \<times> real) option"
  mag :: "real option"
  alpha :: "real option"
  axial_mag :: "real option"
  z_voxel_size :: "real option"
  scaling :: "real option"
  FoV :: "real option"
  PSF :: "volume option"
  ls_PSF :: "volume option"
  eff_PSF :: "volume option"
  tti :: "fl option"
  PSF_poisson :: "volume option"
  PSF_readout :: "volume option"
  MTF_noiseless :: "volume option"
  MTF_poisson :: "volume option"
  MTF_readout :: "volume option"
  base_freq :: "real option"
  XYZ_res :: "(fl \<times> fl \<times> fl) option"

text \<open>
  \<open>Microscope(lam_ex, lam_em, path)\<close>: an empty lens list and the emission wavenumber;
  every other attribute is not set yet.
\<close>

definition Microscope :: "real \<Rightarrow> real \<Rightarrow> string \<Rightarrow> error + microscope" where
  "Microscope lx lm pth =
     (if lm = 0 then Inl ZeroDivisionError
      else Inr \<lparr>lenses = [], lam_ex = lx, lam_em = lm, k0 = 2 * pi / lm, path = pth,
                cam = None, OTF_res = None, SNR = None, ls_opening = None, ls_pol = None,
                Ei_base = None, mag = None, alpha = None, axial_mag = None,
                z_voxel_size = None, scaling = None, FoV = None, PSF = None, ls_PSF = None,
                eff_PSF = None, tti = None,
                PSF_poisson = None, PSF_readout = None, MTF_noiseless = None,
                MTF_poisson = None, MTF_readout = None, base_freq = None,
                XYZ_res = None\<rparr>)"

subsection \<open>\<open>add_lens\<close>\<close>





subsection \<open>\<open>calculate_system_specs\<close>\<close>

text \<open>
  The loop over \<open>enumerate(self.lenses)\<close>: the running magnification is multiplied by the
  NA of an even-indexed lens and divided by the NA of an odd-indexed one. The result is the
  value of \<open>self.mag\<close> when the loop ends or raises.
\<close>

fun mag_loop :: "nat \<Rightarrow> lens list \<Rightarrow> real \<Rightarrow> (error \<times> real) + real" where
  "mag_loop i [] mg = Inr mg"
| "mag_loop i (l # ls) mg =
     (if i mod 2 = 0 then mag_loop (i + 1) ls (mg * NA l)
      else if NA l = 0 then Inl (ZeroDivisionError, mg)
      else mag_loop (i + 1) ls (mg / NA l))"

definition calculate_system_specs :: "microscope \<Rightarrow> microscope outcome" where
  "calculate_system_specs m0 =
     (let m1 = m0\<lparr>mag := Some 1\<rparr>;
          m2 = m1\<lparr>alpha := Some (pi / 2 - sum_list (map rot (lenses m1)))\<rparr>
      in case mag_loop 0 (lenses m2) 1 of
           Inl (e, mg) \<Rightarrow> Inl (e, m2\<lparr>mag := Some mg\<rparr>)
         | Inr mg \<Rightarrow>
             let m3 = m2\<lparr>mag := Some mg\<rparr> in
             if lenses m3 = [] then Inl (IndexError, m3)
             else if RI (hd (lenses m3)) = 0 then Inl (ZeroDivisionError, m3)
             else
               let am = mg ^ 2 * RI (last (lenses m3)) / RI (hd (lenses m3));
                   m4 = m3\<lparr>axial_mag := Some am\<rparr>
               in case cam m4 of
                    None \<Rightarrow> Inl (AttributeError, m4)
                  | Some c \<Rightarrow>
                      if mg = 0 then Inl (ZeroDivisionError, m4)
                      else
                        let m5 = m4\<lparr>z_voxel_size := Some (vox c / mg * am)\<rparr> in
                        if 2 * vox c * NA (last (lenses m5)) = 0
                        then Inl (ZeroDivisionError, m5)
                        else
                          let m6 = m5\<lparr>scaling :=
                                Some (lam_em m5 / (2 * vox c * NA (last (lenses m5))))\<rparr>
                          in Inr (m6\<lparr>FoV := Some (vox c * real_of_int (res c) / mg)\<rparr>))"

text \<open>The lenses at even and at odd positions of the list, in order.\<close>

definition even_indexed :: "'a list \<Rightarrow> 'a list" where
  "even_indexed xs = map (nth xs) (filter even [0..<length xs])"

definition odd_indexed :: "'a list \<Rightarrow> 'a list" where
  "odd_indexed xs = map (nth xs) (filter odd [0..<length xs])"

subsection \<open>\<open>field_tracing_reverse\<close>: the rotation direction\<close>

text \<open>
  \<open>np.ones(n, dtype=np.uint8) * -1\<close>: under the value-based promotion of NumPy 1.x (the
  source's \<open>np.NaN\<close> exists in no later version) an unsigned 8-bit array times the Python
  integer \<open>-1\<close> is a signed 16-bit array, every entry \<open>-1\<close>. The loop
  \<open>for i in range(1, n+1): rotation_direction[-i] *= (-1)**((i+1)//2+1)\<close> multiplies
  entry \<open>n - i\<close> by a sign. Entries are integers; the theorem on them shows that they
  never leave \<open>{-1, 1}\<close>, far inside the 16 bits.
\<close>

definition rotation_direction :: "nat \<Rightarrow> int list" where
  "rotation_direction n =
     fold (\<lambda>i rd. rd[n - i := rd ! (n - i) * (- 1) ^ ((i + 1) div 2 + 1)])
       [1..<n + 1] (replicate n (- 1))"

datatype mode = collimating | focusing

text \<open>\<open>modes = ['collimating','focusing']\<close>, \<open>mode = modes[(i+1)%2]\<close>.\<close>

definition mode_of :: "nat \<Rightarrow> mode" where
  "mode_of i = [collimating, focusing] ! ((i + 1) mod 2)"

text \<open>\<open>dir = rotation_direction[i]\<close> at step \<open>i\<close> of the loop over the reversed lens list.\<close>

definition dir_of :: "lens list \<Rightarrow> nat \<Rightarrow> int" where
  "dir_of ls i = rotation_direction (length ls) ! i"

subsection \<open>\<open>light_sheet\<close>: the aperture mask\<close>

text \<open>
  \<open>np.linspace(a, b, n)\<close>: \<open>n\<close> evenly spaced points from \<open>a\<close> to \<open>b\<close>, and the radius
  \<open>RR = sqrt(xx**2 + yy**2)\<close> on the grid of \<open>np.meshgrid(x, y)\<close> (row \<open>i\<close> has
  \<open>y = y[i]\<close>, column \<open>j\<close> has \<open>x = x[j]\<close>).
\<close>

definition linspace :: "real \<Rightarrow> real \<Rightarrow> nat \<Rightarrow> real list" where
  "linspace a b n =
     (if n = 1 then [a] else map (\<lambda>j. a + real j * ((b - a) / real (n - 1))) [0..<n])"

definition radius_grid :: "real list \<Rightarrow> real list \<Rightarrow> grid" where
  "radius_grid xs ys = map (\<lambda>y. map (\<lambda>x. Fin (sqrt (x ^ 2 + y ^ 2))) xs) ys"

text \<open>The three assignments to the mask, in the order of the source.\<close>

definition mask_where_greater :: "grid \<Rightarrow> real \<Rightarrow> grid \<Rightarrow> grid" where
  "mask_where_greater theta opening msk =
     map2 (map2 (\<lambda>t v. if fl_greater t (Fin opening) then NaN else v)) theta msk"

definition mask_columns_before :: "nat \<Rightarrow> grid \<Rightarrow> grid" where
  "mask_columns_before M msk =
     map (\<lambda>row. replicate (min M (length row)) NaN @ drop M row) msk"

definition mask_columns_from :: "nat \<Rightarrow> grid \<Rightarrow> grid" where
  "mask_columns_from k msk =
     map (\<lambda>row. take k row @ replicate (length row - k) NaN) msk"

text \<open>
  The polar angle \<open>theta\<close> of each pixel. \<open>NA\<close> is a NumPy number (the product with
  \<open>np.sin\<close>), so the divisions that follow are NumPy's and do not raise.
\<close>

definition light_sheet_theta :: "real \<Rightarrow> real \<Rightarrow> real \<Rightarrow> nat \<Rightarrow> grid" where
  "light_sheet_theta k ri opening n =
     (let M = n div 2;
          x = linspace (- real M) (real M) n;
          RR = radius_grid x x;
          NA0 = Fin (ri * sin opening);
          del_K = fl_div (fl_mul (Fin k) NA0) (Fin (real M))
      in map (map (\<lambda>r. fl_arcsin (fl_mul (fl_div del_K (Fin (k * ri))) r))) RR)"

text \<open>
  \<open>mask = np.ones_like(theta)\<close>, \<open>mask[theta>self.ls_opening] = np.NaN\<close>,
  \<open>mask[:,:M] = np.NaN\<close>, \<open>mask[:,M+1:] = np.NaN\<close>.
\<close>

definition aperture_mask :: "grid \<Rightarrow> real \<Rightarrow> nat \<Rightarrow> grid" where
  "aperture_mask theta opening M =
     (let mask0 = map (map (\<lambda>t. Fin 1)) theta;
          mask1 = mask_where_greater theta opening mask0;
          mask2 = mask_columns_before M mask1
      in mask_columns_from (M + 1) mask2)"

text \<open>
  \<open>theta\<close> and \<open>mask\<close> as \<open>light_sheet\<close> holds them after its line
  \<open>mask[:,M+1:] = np.NaN\<close>. Before the mask the method reads \<open>self.ls_pol\<close>, and
  \<open>self.Ei_base\<close>, which it sets itself only for the polarizations \<open>'p'\<close>, \<open>'s'\<close>
  and \<open>'u'\<close>.
\<close>

definition light_sheet_mask :: "microscope \<Rightarrow> error + (grid \<times> grid)" where
  "light_sheet_mask m =
     (case cam m of None \<Rightarrow> Inl AttributeError | Some c \<Rightarrow>
      if res c < 0 then Inl ValueError
      else
        case lenses m of [] \<Rightarrow> Inl IndexError | l0 # ls \<Rightarrow>
        case ls_opening m of None \<Rightarrow> Inl AttributeError | Some opening \<Rightarrow>
        case ls_pol m of None \<Rightarrow> Inl AttributeError | Some pol \<Rightarrow>
        if pol \<noteq> ''p'' \<and> pol \<noteq> ''s'' \<and> pol \<noteq> ''u'' \<and> Ei_base m = None
        then Inl AttributeError
        else
          let theta = light_sheet_theta (k0 m) (RI l0) opening (nat (res c))
          in Inr (theta, aperture_mask theta opening (nat (res c) div 2)))"

text \<open>
  The claim's reading of the mask: a pixel is invalid exactly when its angle exceeds the
  half-angle or it lies outside a half-plane \<open>a*x + b*y \<le> c\<close> of the pixel grid.
\<close>

definition half_plane :: "real \<Rightarrow> real \<Rightarrow> real \<Rightarrow> real \<Rightarrow> real \<Rightarrow> bool" where
  "half_plane a b c x y = (a * x + b * y \<le> c)"

definition half_plane_mask :: "real list \<Rightarrow> real \<Rightarrow> grid \<Rightarrow> grid \<Rightarrow> bool" where
  "half_plane_mask xs opening theta msk =
     (\<exists>a b c. \<forall>i < length xs. \<forall>j < length xs.
         (msk ! i ! j = NaN) =
         (fl_greater (theta ! i ! j) (Fin opening) \<or> \<not> half_plane a b c (xs ! j) (xs ! i)))"

subsection \<open>\<open>field_tracing_reverse\<close>: the angles of each lens\<close>

text \<open>
  Each lens acquires two arrays, \<open>lens.theta\<close> and \<open>lens.phi\<close>, of the camera's shape.
  Every operation on them is elementwise, so they are one grid of pairs
  \<open>(theta, phi)\<close> here, and a step of the trace is a function on one pixel.
  \<open>R_x\<close> (module \<open>other_functions\<close>, not among the source files) is the parameter
  \<open>Rx\<close>: the 3 by 3 matrix of a rotation angle, as its three rows.
  The same loop collects the Jones matrices (\<open>R_z\<close>, \<open>R_y\<close>, \<open>L_refraction\<close> and
  \<open>Fresnel\<close> of \<open>other_functions\<close>) and the apodization; neither enters \<open>theta\<close> or
  \<open>phi\<close>, and they are left out here, as calls that return.
\<close>

type_synonym angles = "fl \<times> fl"

type_synonym vec3 = "fl \<times> fl \<times> fl"




text \<open>The wavevector \<open>ki\<close> of the angles, and the angles of a wavevector \<open>kf\<close> with
  \<open>theta[kf[2]<0] = np.NaN\<close>.\<close>

fun wavevector :: "angles \<Rightarrow> vec3" where
  "wavevector (th, ph) =
     (fl_mul (fl_sin th) (fl_cos ph), fl_mul (fl_sin th) (fl_sin ph), fl_cos th)"

fun angles_of :: "vec3 \<Rightarrow> angles" where
  "angles_of (k0', k1, k2) =
     (let th = fl_arctan2 (fl_sqrt (fl_add (fl_mul k0' k0') (fl_mul k1 k1))) k2
      in (if fl_less k2 (Fin 0) then NaN else th, fl_arctan2 k1 k0'))"











subsection \<open>\<open>calculate_PSF\<close>: the transform applied to a field\<close>

text \<open>
  At one pixel the field is a vector of three complex numbers, the transform a 3 by 3
  complex matrix (its rows) and the apodization a number.
  \<open>np.einsum('abji,abi->abj', self.transform, Ei)\<close> is the matrix times the vector, and
  \<open>Ef = np.nan_to_num(apodization * ...)\<close> follows.
\<close>

type_synonym cvec3 = "cfl \<times> cfl \<times> cfl"






text \<open>
  \<open>np.sum(np.abs(np.nan_to_num(E))**2)\<close>: what one pixel adds to the sum, and the sum.
\<close>

definition square_abs :: "cfl \<Rightarrow> fl" where
  "square_abs z = fl_mul (cfl_abs (cfl_nan_to_num z)) (cfl_abs (cfl_nan_to_num z))"

fun px_intensity :: "cvec3 \<Rightarrow> fl" where
  "px_intensity (x, y, z) = fl_add (fl_add (square_abs x) (square_abs y)) (square_abs z)"

definition intensity :: "cvec3 list list \<Rightarrow> fl" where
  "intensity E = fold (\<lambda>v s. fl_add s (px_intensity v)) (concat E) (Fin 0)"




subsection \<open>\<open>make_MTF\<close>\<close>

text \<open>
  Modelled from the spec: \<open>add_noise\<close> of the module \<open>other_functions\<close>, which is not
  among the source files. The spec: "Noise injector: given a real volume, target
  squared-SNR, offset, and RMS, returns (noiseless-padded, noisy) volume pair." The first
  component is the volume it was given; the second is a random draw (Poisson shot noise
  plus Gaussian readout noise), here the result of a function \<open>draw\<close> that stands for the
  random generator.
\<close>

definition add_noise ::
  "(volume \<Rightarrow> real \<Rightarrow> real \<Rightarrow> real \<Rightarrow> volume) \<Rightarrow> volume \<Rightarrow> real \<Rightarrow> real \<Rightarrow> real \<Rightarrow> volume \<times> volume"
where
  "add_noise draw v snr2 off rms = (v, draw v snr2 off rms)"

text \<open>
  \<open>np.fft.fftn\<close> is a parameter, \<open>fftn\<close>. The local variable \<open>poisson\<close> is bound only
  inside \<open>if self.SNR != 0\<close>; it is an option here, and reading it unbound raises
  \<open>UnboundLocalError\<close>. \<open>np.pad\<close> refuses a negative width with \<open>ValueError\<close>.
\<close>

definition make_MTF ::
  "(volume \<Rightarrow> cvolume) \<Rightarrow> (volume \<Rightarrow> real \<Rightarrow> real \<Rightarrow> real \<Rightarrow> volume) \<Rightarrow> microscope
     \<Rightarrow> microscope outcome"
where
  "make_MTF fftn draw m =
     (case OTF_res m of None \<Rightarrow> Inl (AttributeError, m) | Some otf \<Rightarrow>
      case cam m of None \<Rightarrow> Inl (AttributeError, m) | Some c \<Rightarrow>
      let padding = (otf - res c) div 2 in
      case eff_PSF m of None \<Rightarrow> Inl (AttributeError, m) | Some eff \<Rightarrow>
      if padding < 0 then Inl (ValueError, m)
      else
        let product0 = np_pad (nat padding) eff in
        case SNR m of None \<Rightarrow> Inl (AttributeError, m) | Some snr \<Rightarrow>
        let noised = (if snr \<noteq> 0
                      then Some (add_noise draw product0 (snr ^ 2) (offset c) (RMS c))
                      else None);
            product = (case noised of Some (pr, po) \<Rightarrow> pr | None \<Rightarrow> product0);
            poisson = (case noised of Some (pr, po) \<Rightarrow> Some po | None \<Rightarrow> None)
        in
        case poisson of None \<Rightarrow> Inl (UnboundLocalError, m) | Some po \<Rightarrow>
        let m1 = m\<lparr>PSF_poisson := Some (crop3 padding (padding + res c) po)\<rparr>;
            m2 = m1\<lparr>PSF_readout := Some (crop3 padding (padding + res c) product)\<rparr>;
            OTF_noiseless = fftshift (fftn (fftshift product));
            OTF_poisson = fftshift (fftn (fftshift po));
            OTF_readout = fftshift (fftn (fftshift product));
            m3 = m2\<lparr>MTF_noiseless := Some (np_abs OTF_noiseless)\<rparr>;
            m4 = m3\<lparr>MTF_poisson := Some (np_abs OTF_poisson)\<rparr>;
            m5 = m4\<lparr>MTF_readout := Some (np_abs OTF_readout)\<rparr>
        in
        case mag m5 of None \<Rightarrow> Inl (AttributeError, m5) | Some mg \<Rightarrow>
        if mg = 0 then Inl (ZeroDivisionError, m5)
        else if real (length (np_abs OTF_readout)) * (vox c / mg) = 0
        then Inl (ZeroDivisionError, m5)
        else Inr (m5\<lparr>base_freq :=
               Some (1 / (real (length (np_abs OTF_readout)) * (vox c / mg)))\<rparr>))"

subsection \<open>\<open>analyze\<close>\<close>

text \<open>
  The three profiles \<open>poisson[N, N:, N]\<close>, \<open>poisson[N:, N, N]\<close> and \<open>poisson[N, N, N:]\<close>.
  An integer index beyond its axis raises \<open>IndexError\<close>; a slice never raises.
\<close>

definition profile_x :: "volume \<Rightarrow> nat \<Rightarrow> error + fl list" where
  "profile_x v N =
     (case dims v of (a, b, c) \<Rightarrow>
        if N < a \<and> N < c then Inr (map (\<lambda>row. row ! N) (drop N (v ! N))) else Inl IndexError)"

definition profile_y :: "volume \<Rightarrow> nat \<Rightarrow> error + fl list" where
  "profile_y v N =
     (case dims v of (a, b, c) \<Rightarrow>
        if N < b \<and> N < c then Inr (map (\<lambda>pl. pl ! N ! N) (drop N v)) else Inl IndexError)"

definition profile_z :: "volume \<Rightarrow> nat \<Rightarrow> error + fl list" where
  "profile_z v N =
     (case dims v of (a, b, c) \<Rightarrow>
        if N < a \<and> N < b then Inr (drop N (v ! N ! N)) else Inl IndexError)"

text \<open>\<open>np.where(xx<=0)[0]\<close> lists the indices with \<open>xx[i] <= 0\<close>; its entry 0 is the first.\<close>

fun first_le0 :: "fl list \<Rightarrow> nat option" where
  "first_le0 [] = None"
| "first_le0 (x # xs) = (if fl_le x (Fin 0) then Some 0 else map_option Suc (first_le0 xs))"

text \<open>
  \<open>1/(self.base_freq*X_cut/1e9)\<close>: the index is a NumPy integer, so the quotient is
  NumPy's and a zero divisor gives an infinity.
\<close>

definition resolution :: "real \<Rightarrow> nat \<Rightarrow> fl" where
  "resolution bf X_cut = fl_div (Fin 1) (Fin (bf * real X_cut / 10 ^ 9))"

definition axis_res :: "error + fl list \<Rightarrow> real option \<Rightarrow> error + fl" where
  "axis_res prof bf =
     (case prof of Inl e \<Rightarrow> Inl e | Inr xs \<Rightarrow>
      case first_le0 xs of None \<Rightarrow> Inl IndexError | Some X_cut \<Rightarrow>
      case bf of None \<Rightarrow> Inl AttributeError | Some f \<Rightarrow> Inr (resolution f X_cut))"

text \<open>The MTF minus the square root of its largest entry.\<close>

definition noise_floor_subtracted :: "volume \<Rightarrow> error + volume" where
  "noise_floor_subtracted mtf =
     (case np_max (flatten mtf) of Inl e \<Rightarrow> Inl e
      | Inr mx \<Rightarrow> Inr (map (map (map (\<lambda>v. fl_sub v (fl_sqrt mx)))) mtf))"

definition analyze :: "microscope \<Rightarrow> microscope outcome" where
  "analyze m =
     (case MTF_poisson m of None \<Rightarrow> Inl (AttributeError, m) | Some mtf \<Rightarrow>
      let N = length mtf div 2 in
      case noise_floor_subtracted mtf of Inl e \<Rightarrow> Inl (e, m) | Inr poisson \<Rightarrow>
      case axis_res (profile_x poisson N) (base_freq m) of Inl e \<Rightarrow> Inl (e, m) | Inr X_res \<Rightarrow>
      case axis_res (profile_y poisson N) (base_freq m) of Inl e \<Rightarrow> Inl (e, m) | Inr Y_res \<Rightarrow>
      case axis_res (profile_z poisson N) (base_freq m) of Inl e \<Rightarrow> Inl (e, m) | Inr Z_res \<Rightarrow>
      Inr (m\<lparr>XYZ_res := Some (X_res, Y_res, Z_res)\<rparr>))"

text \<open>A resolution that is a positive real number.\<close>

fun positive_finite :: "fl \<Rightarrow> bool" where
  "positive_finite (Fin a) = (0 < a)"
| "positive_finite a = False"

subsection \<open>The effective PSF of \<open>calculate_PSF\<close>\<close>

text \<open>
  \<open>(self.PSF/self.PSF.max())*(self.ls_PSF/self.ls_PSF.max())\<close>. \<open>max\<close> of an array
  without entries raises \<open>ValueError\<close>. The product is elementwise after broadcasting: along
  each axis the two lengths agree or one of them is 1 (and is repeated), otherwise NumPy
  raises \<open>ValueError\<close>.
\<close>

definition div_by_max :: "volume \<Rightarrow> error + volume" where
  "div_by_max v =
     (case np_max (flatten v) of Inl e \<Rightarrow> Inl e
      | Inr mx \<Rightarrow> Inr (map (map (map (\<lambda>x. fl_div x mx))) v))"

definition np_compat :: "nat \<Rightarrow> nat \<Rightarrow> bool" where
  "np_compat a b = (a = b \<or> a = 1 \<or> b = 1)"

definition bc_len :: "nat \<Rightarrow> nat \<Rightarrow> nat" where
  "bc_len a b = (if a = 1 then b else a)"

definition bc :: "nat \<Rightarrow> 'a list \<Rightarrow> 'a list" where
  "bc n xs = (if length xs = 1 then replicate n (hd xs) else xs)"

definition broadcast_to :: "nat \<times> nat \<times> nat \<Rightarrow> 'a list list list \<Rightarrow> 'a list list list" where
  "broadcast_to d v = (case d of (a, b, c) \<Rightarrow> bc a (map (\<lambda>pl. bc b (map (bc c) pl)) v))"

definition np_mul3 :: "volume \<Rightarrow> volume \<Rightarrow> error + volume" where
  "np_mul3 A B =
     (case (dims A, dims B) of ((a, b, c), (a', b', c')) \<Rightarrow>
        if np_compat a a' \<and> np_compat b b' \<and> np_compat c c'
        then let d = (bc_len a a', bc_len b b', bc_len c c')
             in Inr (map2 (map2 (map2 fl_mul)) (broadcast_to d A) (broadcast_to d B))
        else Inl ValueError)"

definition effective_PSF :: "volume \<Rightarrow> volume \<Rightarrow> error + volume" where
  "effective_PSF psf ls =
     (case div_by_max psf of Inl e \<Rightarrow> Inl e | Inr A \<Rightarrow>
      case div_by_max ls of Inl e \<Rightarrow> Inl e | Inr B \<Rightarrow> np_mul3 A B)"

text \<open>A whole volume multiplied by a number.\<close>

definition scale3 :: "real \<Rightarrow> volume \<Rightarrow> volume" where
  "scale3 c v = map (map (map (fl_mul (Fin c)))) v"

subsection \<open>\<open>calculate_PSF\<close>: the loop over the dipoles and the progress sink\<close>










text \<open>An array of shape \<open>(n, n, n)\<close>.\<close>

definition cube :: "nat \<Rightarrow> 'a list list list \<Rightarrow> bool" where
  "cube n v = (length v = n \<and> list_all (\<lambda>pl. length pl = n \<and> list_all (\<lambda>r. length r = n) pl) v)"

subsection \<open>Reading a list at a Python index\<close>


subsection \<open>Example systems\<close>

text \<open>
  The microscope of the script part of the source, \<open>Microscope(488e-9, 507e-9, path)\<close>,
  some of its lenses and its camera \<open>add_camera(128, 2e-6, 100, 1.4)\<close>.
\<close>

definition sys488 :: microscope where
  "sys488 = \<lparr>lenses = [], lam_ex = 488 / 10 ^ 9, lam_em = 507 / 10 ^ 9,
              k0 = 2 * pi / (507 / 10 ^ 9), path = ''path'', cam = None,
              OTF_res = None, SNR = None, ls_opening = None, ls_pol = None, Ei_base = None,
              mag = None, alpha = None, axial_mag = None,
              z_voxel_size = None, scaling = None, FoV = None, PSF = None, ls_PSF = None,
              eff_PSF = None, tti = None,
              PSF_poisson = None, PSF_readout = None, MTF_noiseless = None,
              MTF_poisson = None, MTF_readout = None, base_freq = None,
              XYZ_res = None\<rparr>"

definition lensA :: lens where "lensA = \<lparr>NA = 27 / 20, RI = 7 / 5, rot = 0\<rparr>"

definition lensB :: lens where "lensB = \<lparr>NA = 1 / 4, RI = 1, rot = 0\<rparr>"

definition lensC :: lens where "lensC = \<lparr>NA = 19 / 20, RI = 1, rot = 0\<rparr>"

definition lensN :: lens where "lensN = \<lparr>NA = 1, RI = 1, rot = 0\<rparr>"

definition cam128 :: camera where
  "cam128 = \<lparr>res = 128, vox = 2 / 10 ^ 6, offset = 100, RMS = 7 / 5\<rparr>"


definition sys3 :: microscope where
  "sys3 = sys488\<lparr>lenses := [lensA, lensB, lensC], cam := Some cam128\<rparr>"

definition six_lenses :: "lens list" where
  "six_lenses = [lensA, lensB, lensC, lensA, lensB, lensC]"

definition cam1 :: camera where
  "cam1 = \<lparr>res = 1, vox = 2 / 10 ^ 6, offset = 100, RMS = 7 / 5\<rparr>"

text \<open>
  A configured system with a camera of one pixel and a one-voxel effective PSF; the
  discrete Fourier transform of an array with a single entry is that entry.
\<close>

definition sysM :: "real \<Rightarrow> microscope" where
  "sysM snr = sys488\<lparr>lenses := [lensN, lensN], cam := Some cam1, OTF_res := Some 1,
     SNR := Some snr, mag := Some 1, eff_PSF := Some [[[Fin 1]]]\<rparr>"

definition dft1 :: "volume \<Rightarrow> cvolume" where
  "dft1 v = map (map (map (\<lambda>x. (x, Fin 0)))) v"

definition draw1 :: "volume \<Rightarrow> real \<Rightarrow> real \<Rightarrow> real \<Rightarrow> volume" where
  "draw1 v snr2 off rms = map (map (map (\<lambda>x. fl_add (fl_mul x (Fin snr2)) (Fin off)))) v"

text \<open>Systems that hold a noisy MTF and a base frequency, ready for \<open>analyze\<close>.\<close>

definition sysA :: microscope where
  "sysA = sys488\<lparr>MTF_poisson :=
      Some [[[Fin 1, Fin 1, Fin 1], [Fin 1, Fin 1, Fin 1], [Fin 1, Fin 1, Fin 1]],
            [[Fin 1, Fin 1, Fin 1], [Fin 1, Fin 1, Fin 1], [Fin 1, Fin 1, Fin 1]],
            [[Fin 1, Fin 1, Fin 1], [Fin 1, Fin 1, Fin 1], [Fin 1, Fin 1, Fin 1]]],
      base_freq := Some 1\<rparr>"

definition mtfC :: volume where
  "mtfC = [[[Fin 0, Fin 0, Fin 0], [Fin 0, Fin 1, Fin 0], [Fin 0, Fin 0, Fin 0]],
           [[Fin 0, Fin 1, Fin 0], [Fin 1, Fin 4, Fin 1], [Fin 0, Fin 2, Fin 0]],
           [[Fin 0, Fin 0, Fin 0], [Fin 0, Fin 1, Fin 0], [Fin 0, Fin 0, Fin 0]]]"

definition floorC :: volume where
  "floorC = [[[Fin (- 2), Fin (- 2), Fin (- 2)], [Fin (- 2), Fin (- 1), Fin (- 2)],
              [Fin (- 2), Fin (- 2), Fin (- 2)]],
             [[Fin (- 2), Fin (- 1), Fin (- 2)], [Fin (- 1), Fin 2, Fin (- 1)],
              [Fin (- 2), Fin 0, Fin (- 2)]],
             [[Fin (- 2), Fin (- 2), Fin (- 2)], [Fin (- 2), Fin (- 1), Fin (- 2)],
              [Fin (- 2), Fin (- 2), Fin (- 2)]]]"

definition sysC :: microscope where
  "sysC = sys488\<lparr>MTF_poisson := Some mtfC, base_freq := Some 2\<rparr>"

definition sysB :: microscope where
  "sysB = sys488\<lparr>MTF_poisson := Some [[[Fin 4]]], base_freq := Some 1\<rparr>"

text \<open>Two volumes of shape \<open>(2, 2, 2)\<close>.\<close>

definition volA :: volume where
  "volA = [[[Fin 1, Fin 2], [Fin 0, Fin 1]], [[Fin 4, Fin 2], [Fin 1, Fin 0]]]"

definition volB :: volume where
  "volB = [[[Fin 1, Fin 1], [Fin 2, Fin 1]], [[Fin 1, Fin 0], [Fin 1, Fin 1]]]"

text \<open>A camera of 5 by 5 pixels behind one lens, with a light-sheet half-angle of 30 degrees.\<close>

definition sysL :: microscope where
  "sysL = sys488\<lparr>lenses := [lensN],
                 cam := Some \<lparr>res = 5, vox = 2 / 10 ^ 6, offset = 100, RMS = 7 / 5\<rparr>,
                 ls_opening := Some (pi / 6), ls_pol := Some ''u''\<rparr>"








section \<open>Properties\<close>

subsection \<open>\<open>add_lens\<close>\<close>




subsection \<open>\<open>calculate_system_specs\<close>\<close>

lemma even_indexed_Cons: "even_indexed (x # xs) = x # odd_indexed xs"
proof -
  have "filter even [0..<Suc (length xs)] = 0 # map Suc (filter odd [0..<length xs])"
    by (simp add: upt_conv_Cons map_Suc_upt [symmetric] filter_map comp_def del: upt_Suc)
  then show ?thesis by (simp add: even_indexed_def odd_indexed_def comp_def del: upt_Suc)
qed

lemma odd_indexed_Cons: "odd_indexed (x # xs) = even_indexed xs"
proof -
  have "filter odd [0..<Suc (length xs)] = map Suc (filter even [0..<length xs])"
    by (simp add: upt_conv_Cons map_Suc_upt [symmetric] filter_map comp_def del: upt_Suc)
  then show ?thesis by (simp add: even_indexed_def odd_indexed_def comp_def del: upt_Suc)
qed

lemma even_indexed_Nil: "even_indexed [] = []"
  by (simp add: even_indexed_def)

lemma odd_indexed_Nil: "odd_indexed [] = []"
  by (simp add: odd_indexed_def)

text \<open>
  The loop, started at an even or at an odd position, returns the running value times the
  quotient of the two products, provided no divisor is zero.
\<close>

lemma mag_loop_closed:
  "(even i \<longrightarrow> 0 \<notin> NA ` set (odd_indexed ls) \<longrightarrow>
      mag_loop i ls mg =
        Inr (mg * prod_list (map NA (even_indexed ls)) / prod_list (map NA (odd_indexed ls))))
   \<and> (odd i \<longrightarrow> 0 \<notin> NA ` set (even_indexed ls) \<longrightarrow>
      mag_loop i ls mg =
        Inr (mg * prod_list (map NA (odd_indexed ls)) / prod_list (map NA (even_indexed ls))))"
proof (induction ls arbitrary: i mg)
  case Nil
  show ?case by (simp add: even_indexed_Nil odd_indexed_Nil)
next
  case (Cons l ls)
  show ?case
  proof (cases "even i")
    case True
    then have o: "odd (i + 1)" by simp
    show ?thesis using True Cons.IH [of "i + 1" "mg * NA l"] o
      by (simp add: even_indexed_Cons odd_indexed_Cons mult.assoc even_iff_mod_2_eq_zero)
  next
    case False
    then have e: "even (i + 1)" by simp
    show ?thesis using False Cons.IH [of "i + 1" "mg / NA l"] e
      by (auto simp add: even_indexed_Cons odd_indexed_Cons even_iff_mod_2_eq_zero)
  qed
qed

lemma calculate_system_specs_sets:
  assumes ne: "lenses m \<noteq> []" and r: "RI (hd (lenses m)) \<noteq> 0"
    and lp: "mag_loop 0 (lenses m) 1 = Inr mg"
  shows "mag (state_of (calculate_system_specs m)) = Some mg"
    and "axial_mag (state_of (calculate_system_specs m)) =
           Some (mg ^ 2 * RI (last (lenses m)) / RI (hd (lenses m)))"
  using ne r lp
  by (simp_all add: calculate_system_specs_def Let_def split: option.splits)

text \<open>
  C3. For a non-empty lens list whose divisors are not zero (the NA of every odd-indexed
  lens, and the RI of the first lens), \<open>calculate_system_specs\<close> leaves in \<open>self.mag\<close>
  the product of the NAs of the even-indexed lenses divided by the product of the NAs of
  the odd-indexed ones, and in \<open>self.axial_mag\<close> the square of that times the last lens's
  RI over the first lens's RI. The two attributes hold these values also when a later line
  of the method raises (no camera, a zero pixel pitch). For a single lens with RI 1 the
  magnification is its NA and the axial magnification its NA squared.
\<close>

theorem calculate_system_specs_magnification:
  assumes ne: "lenses m \<noteq> []"
    and odd_nz: "\<forall>l \<in> set (odd_indexed (lenses m)). NA l \<noteq> 0"
    and r: "RI (hd (lenses m)) \<noteq> 0"
  shows "mag (state_of (calculate_system_specs m)) =
           Some (prod_list (map NA (even_indexed (lenses m)))
                 / prod_list (map NA (odd_indexed (lenses m))))
       \<and> axial_mag (state_of (calculate_system_specs m)) =
           Some ((prod_list (map NA (even_indexed (lenses m)))
                  / prod_list (map NA (odd_indexed (lenses m)))) ^ 2
                 * RI (last (lenses m)) / RI (hd (lenses m)))
       \<and> (\<forall>l. lenses m = [l] \<and> RI l = 1 \<longrightarrow>
             mag (state_of (calculate_system_specs m)) = Some (NA l)
           \<and> axial_mag (state_of (calculate_system_specs m)) = Some (NA l ^ 2))"
proof -
  let ?q = "prod_list (map NA (even_indexed (lenses m)))
            / prod_list (map NA (odd_indexed (lenses m)))"
  have "0 \<notin> NA ` set (odd_indexed (lenses m))" using odd_nz by force
  then have lp: "mag_loop 0 (lenses m) 1 = Inr ?q"
    using mag_loop_closed [of 0 "lenses m" 1] by simp
  note sets = calculate_system_specs_sets [OF ne r lp]
  have single: "?q = NA l" if "lenses m = [l]" for l
    using that by (simp add: even_indexed_Cons odd_indexed_Cons even_indexed_Nil odd_indexed_Nil)
  show ?thesis
  proof (intro conjI allI impI)
    show "mag (state_of (calculate_system_specs m)) = Some ?q" by (rule sets(1))
    show "axial_mag (state_of (calculate_system_specs m)) =
            Some (?q ^ 2 * RI (last (lenses m)) / RI (hd (lenses m)))" by (rule sets(2))
  next
    fix l assume h: "lenses m = [l] \<and> RI l = 1"
    then show "mag (state_of (calculate_system_specs m)) = Some (NA l)"
      using sets(1) single by simp
  next
    fix l assume h: "lenses m = [l] \<and> RI l = 1"
    then show "axial_mag (state_of (calculate_system_specs m)) = Some (NA l ^ 2)"
      using sets(2) single by simp
  qed
qed

theorem calculate_system_specs_magnification_witness:
  "mag (state_of (calculate_system_specs sys3)) = Some (513 / 100)
   \<and> axial_mag (state_of (calculate_system_specs sys3)) = Some ((513 / 100) ^ 2 * 1 / (7 / 5))
   \<and> mag (state_of (calculate_system_specs (sys488\<lparr>lenses := [lensN]\<rparr>))) = Some 1
   \<and> axial_mag (state_of (calculate_system_specs (sys488\<lparr>lenses := [lensN]\<rparr>))) = Some 1"
  using calculate_system_specs_magnification [of sys3]
    calculate_system_specs_magnification [of "sys488\<lparr>lenses := [lensN]\<rparr>"]
  by (simp add: sys3_def sys488_def lensA_def lensB_def lensC_def lensN_def
      even_indexed_Cons odd_indexed_Cons even_indexed_Nil odd_indexed_Nil)

subsection \<open>\<open>field_tracing_reverse\<close>: the rotation direction\<close>

lemma fold_sign_length:
  "length (fold (\<lambda>i rd. rd[n - i := rd ! (n - i) * f i]) is (rd0 :: int list)) = length rd0"
  by (induction "is" arbitrary: rd0) simp_all

text \<open>After the first \<open>k\<close> rounds of the loop exactly the last \<open>k\<close> entries carry their sign.\<close>

lemma fold_sign_nth:
  "k \<le> n \<Longrightarrow> j < n \<Longrightarrow>
   fold (\<lambda>i rd. rd[n - i := rd ! (n - i) * f i]) [1..<k + 1] (replicate n (c::int)) ! j
     = (if n - k \<le> j then c * f (n - j) else c)"
proof (induction k arbitrary: j)
  case 0
  then show ?case by simp
next
  case (Suc k)
  let ?g = "\<lambda>i rd. rd[n - i := rd ! (n - i) * f i]"
  let ?rd = "fold ?g [1..<k + 1] (replicate n c)"
  have len: "length ?rd = n"
    by (simp add: fold_sign_length)
  have k: "k \<le> n" and pos: "n - Suc k < n" using Suc.prems by simp_all
  note IH = Suc.IH [OF k]
  have "\<not> n - k \<le> n - Suc k" using Suc.prems by simp
  then have here: "?rd ! (n - Suc k) = c"
    using IH [OF pos] by (simp del: upt_Suc)
  have "[1..<Suc k + 1] = [1..<k + 1] @ [Suc k]" by simp
  then have step: "fold ?g [1..<Suc k + 1] (replicate n c)
      = ?rd[n - Suc k := ?rd ! (n - Suc k) * f (Suc k)]"
    by (simp del: upt_Suc)
  show ?case
  proof (cases "j = n - Suc k")
    case True
    have "n - (n - Suc k) = Suc k" using Suc.prems by simp
    then show ?thesis unfolding step using True here len pos by (simp del: upt_Suc)
  next
    case False
    have "(n - Suc k \<le> j) = (n - k \<le> j)" using False Suc.prems by auto
    then show ?thesis unfolding step using False IH [OF Suc.prems(2)] by (simp del: upt_Suc)
  qed
qed

lemma rotation_direction_nth:
  "i < n \<Longrightarrow> rotation_direction n ! i = (- 1) ^ ((n - i + 1) div 2)"
proof -
  assume i: "i < n"
  have "rotation_direction n ! i = (- 1) * (- 1) ^ ((n - i + 1) div 2 + 1)"
    unfolding rotation_direction_def
    using fold_sign_nth [where k = n and n = n and j = i and c = "- 1"
        and f = "\<lambda>i. (- 1) ^ ((i + 1) div 2 + 1)"] i by simp
  then show ?thesis by simp
qed

text \<open>
  C5. For every lens list and every step \<open>i\<close> of the loop over the reversed list, the
  coefficient \<open>dir = rotation_direction[i]\<close> is \<open>1\<close> or \<open>-1\<close>; it changes sign every two
  steps and so repeats with period 4; and the parity of \<open>i\<close> decides the mode (even steps
  focus, odd steps collimate).
\<close>

theorem rotation_direction_period_4:
  "i < length ls \<Longrightarrow>
     dir_of ls i \<in> {1, - 1}
   \<and> (i + 4 < length ls \<longrightarrow> dir_of ls (i + 4) = dir_of ls i)
   \<and> (i + 2 < length ls \<longrightarrow> dir_of ls (i + 2) = - dir_of ls i)
   \<and> mode_of i = (if even i then focusing else collimating)"
proof -
  assume i: "i < length ls"
  let ?n = "length ls"
  have v: "dir_of ls i \<in> {1, - 1}"
    using rotation_direction_nth [OF i]
    by (cases "even ((?n - i + 1) div 2)") (simp_all add: dir_of_def)
  have p4: "dir_of ls (i + 4) = dir_of ls i" if h: "i + 4 < ?n"
  proof -
    have "(?n - i + 1) div 2 = (?n - (i + 4) + 1) div 2 + 2" using h by presburger
    then show ?thesis
      using rotation_direction_nth [OF i] rotation_direction_nth [OF h] by (simp add: dir_of_def)
  qed
  have p2: "dir_of ls (i + 2) = - dir_of ls i" if h: "i + 2 < ?n"
  proof -
    have "(?n - i + 1) div 2 = (?n - (i + 2) + 1) div 2 + 1" using h by presburger
    then show ?thesis
      using rotation_direction_nth [OF i] rotation_direction_nth [OF h] by (simp add: dir_of_def)
  qed
  have md: "mode_of i = (if even i then focusing else collimating)"
  proof (cases "even i")
    case True
    then have "(i + 1) mod 2 = 1" by presburger
    then show ?thesis using True by (simp add: mode_of_def)
  next
    case False
    then have "(i + 1) mod 2 = 0" by presburger
    then show ?thesis using False by (simp add: mode_of_def)
  qed
  show ?thesis using v p4 p2 md by blast
qed

theorem rotation_direction_period_4_witness:
  "dir_of six_lenses 0 \<in> {1, - 1}
   \<and> dir_of six_lenses 4 = dir_of six_lenses 0
   \<and> dir_of six_lenses 2 = - dir_of six_lenses 0
   \<and> mode_of 0 = focusing"
  using rotation_direction_period_4 [of 0 six_lenses]
  by (simp add: six_lenses_def numeral_2_eq_2)

subsection \<open>\<open>make_MTF\<close>\<close>

text \<open>
  C2. The claim fails on the code: with \<open>SNR = 0\<close> the branch that binds \<open>poisson\<close> is
  skipped, and the next statement, \<open>self.PSF_poisson = poisson[...]\<close>, raises
  \<open>UnboundLocalError\<close> before any PSF or MTF attribute is written.
\<close>

theorem make_MTF_zero_SNR_raises:
  assumes "SNR m = Some 0" and "OTF_res m = Some otf" and "cam m = Some c"
    and "eff_PSF m = Some eff" and "res c \<le> otf"
  shows "make_MTF fftn draw m = Inl (UnboundLocalError, m)"
proof -
  have "\<not> (otf - res c) div 2 < 0" using assms(5) by simp
  then show ?thesis using assms(1-4) by (simp add: make_MTF_def Let_def)
qed

theorem make_MTF_zero_SNR_raises_witness:
  "make_MTF dft1 draw1 (sysM 0) = Inl (UnboundLocalError, sysM 0)"
  using make_MTF_zero_SNR_raises [of "sysM 0" 1 cam1 "[[[Fin 1]]]" dft1 draw1]
  by (simp add: sysM_def cam1_def)





subsection \<open>\<open>analyze\<close>\<close>

lemma first_le0_Some:
  "first_le0 xs = Some i \<longleftrightarrow>
     i < length xs \<and> fl_le (xs ! i) (Fin 0) \<and> (\<forall>j<i. \<not> fl_le (xs ! j) (Fin 0))"
proof (induction xs arbitrary: i)
  case Nil
  show ?case by simp
next
  case (Cons x xs)
  show ?case
  proof (cases "fl_le x (Fin 0)")
    case True
    then show ?thesis by (cases i) auto
  next
    case False
    show ?thesis
    proof (cases i)
      case 0
      then show ?thesis using False by simp
    next
      case (Suc k)
      have "(\<forall>j<Suc k. \<not> fl_le ((x # xs) ! j) (Fin 0)) = (\<forall>j<k. \<not> fl_le (xs ! j) (Fin 0))"
        using False by (auto simp: less_Suc_eq_0_disj)
      then show ?thesis using False Suc Cons.IH [of k] by auto
    qed
  qed
qed

lemma first_le0_None: "first_le0 xs = None \<longleftrightarrow> (\<forall>x \<in> set xs. \<not> fl_le x (Fin 0))"
  by (induction xs) auto

lemma resolution_positive:
  "0 < bf \<Longrightarrow> 0 < (i::nat) \<Longrightarrow> resolution bf i = Fin (10 ^ 9 / (bf * real i)) \<and> positive_finite (resolution bf i)"
  by (simp add: resolution_def)

lemma resolution_zero: "resolution bf 0 = PInf"
  by (simp add: resolution_def inf_of_def)

text \<open>
  C7 (as amended). \<open>analyze\<close> subtracts the square root of the largest entry of the noisy
  MTF and, on each of the three axes outward from the centre, takes the first index at which
  the profile is \<open>\<le> 0\<close>. When all three indices exist it stores
  \<open>1/(base_freq * index / 1e9)\<close> per axis; each value is a positive real number when the
  base frequency is positive and the index is at least 1. When a profile has no such index
  the method raises \<open>IndexError\<close> and stores nothing.
\<close>

theorem analyze_resolution:
  assumes "MTF_poisson m = Some mtf" and "base_freq m = Some bf"
    and "noise_floor_subtracted mtf = Inr p"
    and "profile_x p (length mtf div 2) = Inr xs"
    and "profile_y p (length mtf div 2) = Inr ys"
    and "profile_z p (length mtf div 2) = Inr zs"
  shows "(\<forall>i j k. first_le0 xs = Some i \<and> first_le0 ys = Some j \<and> first_le0 zs = Some k \<longrightarrow>
            analyze m = Inr (m\<lparr>XYZ_res := Some (resolution bf i, resolution bf j, resolution bf k)\<rparr>)
          \<and> (0 < bf \<and> 0 < i \<and> 0 < j \<and> 0 < k \<longrightarrow>
               resolution bf i = Fin (10 ^ 9 / (bf * real i))
             \<and> positive_finite (resolution bf i)
             \<and> positive_finite (resolution bf j)
             \<and> positive_finite (resolution bf k)))
       \<and> (first_le0 xs = None \<or> first_le0 ys = None \<or> first_le0 zs = None \<longrightarrow>
            analyze m = Inl (IndexError, m))
       \<and> (\<forall>i. (first_le0 xs = Some i) =
             (i < length xs \<and> fl_le (xs ! i) (Fin 0) \<and> (\<forall>j<i. \<not> fl_le (xs ! j) (Fin 0))))"
proof (intro conjI allI impI)
  fix i j k
  assume h: "first_le0 xs = Some i \<and> first_le0 ys = Some j \<and> first_le0 zs = Some k"
  then show "analyze m = Inr (m\<lparr>XYZ_res := Some (resolution bf i, resolution bf j, resolution bf k)\<rparr>)"
    using assms by (simp add: analyze_def axis_res_def Let_def)
next
  fix i j k :: nat
  assume "0 < bf \<and> 0 < i \<and> 0 < j \<and> 0 < k"
  then show "resolution bf i = Fin (10 ^ 9 / (bf * real i))" "positive_finite (resolution bf i)"
    "positive_finite (resolution bf j)" "positive_finite (resolution bf k)"
    using resolution_positive by simp_all
next
  assume "first_le0 xs = None \<or> first_le0 ys = None \<or> first_le0 zs = None"
  then show "analyze m = Inl (IndexError, m)"
    using assms by (auto simp add: analyze_def axis_res_def Let_def split: option.splits)
next
  fix i
  show "(first_le0 xs = Some i) =
             (i < length xs \<and> fl_le (xs ! i) (Fin 0) \<and> (\<forall>j<i. \<not> fl_le (xs ! j) (Fin 0)))"
    by (rule first_le0_Some)
qed

text \<open>
  The claim as stated fails when the crossing index is 0, that is when the centre of the
  MTF is not above the noise floor (its largest entry is at most 1): the index exists, the
  divisor is zero, and the stored resolution is infinite. Here the MTF is that of a single
  count in one voxel, every entry 1.
\<close>

lemma sysA_floor:
  "noise_floor_subtracted
      [[[Fin 1, Fin 1, Fin 1], [Fin 1, Fin 1, Fin 1], [Fin 1, Fin 1, Fin 1]],
       [[Fin 1, Fin 1, Fin 1], [Fin 1, Fin 1, Fin 1], [Fin 1, Fin 1, Fin 1]],
       [[Fin 1, Fin 1, Fin 1], [Fin 1, Fin 1, Fin 1], [Fin 1, Fin 1, Fin 1]]]
   = Inr [[[Fin 0, Fin 0, Fin 0], [Fin 0, Fin 0, Fin 0], [Fin 0, Fin 0, Fin 0]],
       [[Fin 0, Fin 0, Fin 0], [Fin 0, Fin 0, Fin 0], [Fin 0, Fin 0, Fin 0]],
       [[Fin 0, Fin 0, Fin 0], [Fin 0, Fin 0, Fin 0], [Fin 0, Fin 0, Fin 0]]]"
  by (simp add: noise_floor_subtracted_def flatten_def fl_max_def fl_sub_def)

theorem analyze_counterexample:
  "profile_x [[[Fin 0, Fin 0, Fin 0], [Fin 0, Fin 0, Fin 0], [Fin 0, Fin 0, Fin 0]],
       [[Fin 0, Fin 0, Fin 0], [Fin 0, Fin 0, Fin 0], [Fin 0, Fin 0, Fin 0]],
       [[Fin 0, Fin 0, Fin 0], [Fin 0, Fin 0, Fin 0], [Fin 0, Fin 0, Fin 0]]] 1 = Inr [Fin 0, Fin 0]
   \<and> first_le0 [Fin 0, Fin 0] = Some 0
   \<and> analyze sysA = Inr (sysA\<lparr>XYZ_res := Some (PInf, PInf, PInf)\<rparr>)
   \<and> \<not> positive_finite PInf"
  by (simp add: sysA_def sys488_def analyze_def sysA_floor axis_res_def resolution_zero
      profile_x_def profile_y_def profile_z_def dims_def)

theorem analyze_resolution_witness:
  "analyze sysC = Inr (sysC\<lparr>XYZ_res := Some (Fin (10 ^ 9 / 2), Fin (10 ^ 9 / 2), Fin (10 ^ 9 / 2))\<rparr>)
   \<and> positive_finite (Fin (10 ^ 9 / 2))
   \<and> analyze sysB = Inl (IndexError, sysB)"
proof -
  have fC: "noise_floor_subtracted mtfC = Inr floorC"
    by (simp add: noise_floor_subtracted_def flatten_def fl_max_def fl_sub_def mtfC_def floorC_def)
  have pC: "profile_x floorC 1 = Inr [Fin 2, Fin 0]" "profile_y floorC 1 = Inr [Fin 2, Fin (- 1)]"
    "profile_z floorC 1 = Inr [Fin 2, Fin (- 1)]"
    by (simp_all add: profile_x_def profile_y_def profile_z_def dims_def floorC_def)
  have lC: "length mtfC div 2 = 1" by (simp add: mtfC_def)
  have fB: "noise_floor_subtracted [[[Fin 4]]] = Inr [[[Fin 2]]]"
    by (simp add: noise_floor_subtracted_def flatten_def fl_sub_def)
  have pB: "profile_x [[[Fin 2]]] 0 = Inr [Fin 2]" "profile_y [[[Fin 2]]] 0 = Inr [Fin 2]"
    "profile_z [[[Fin 2]]] 0 = Inr [Fin 2]"
    by (simp_all add: profile_x_def profile_y_def profile_z_def dims_def)
  show ?thesis
    using analyze_resolution [where m = sysC and mtf = mtfC and bf = 2 and p = floorC
        and xs = "[Fin 2, Fin 0]" and ys = "[Fin 2, Fin (- 1)]" and zs = "[Fin 2, Fin (- 1)]"]
      analyze_resolution [where m = sysB and mtf = "[[[Fin 4]]]" and bf = 1 and p = "[[[Fin 2]]]"
        and xs = "[Fin 2]" and ys = "[Fin 2]" and zs = "[Fin 2]"]
      fC pC lC fB pB
    by (simp add: sysC_def sysB_def sys488_def)
qed

subsection \<open>The effective PSF\<close>

lemma fl_mul_commute: "fl_mul a b = fl_mul b a"
  by (cases a; cases b) (simp_all add: mult.commute)

lemma scale_fl:
  assumes "0 < c"
  shows "fl_mul (Fin c) (Fin a) = Fin (c * a)" "fl_mul (Fin c) PInf = PInf"
    "fl_mul (Fin c) NInf = NInf" "fl_mul (Fin c) NaN = NaN"
  using assms by (simp_all add: inf_of_def)

lemma scale_fl_max:
  "0 < c \<Longrightarrow> fl_max (fl_mul (Fin c) a) (fl_mul (Fin c) b) = fl_mul (Fin c) (fl_max a b)"
  by (cases a; cases b) (simp_all add: scale_fl fl_max_def inf_of_def)

lemma scale_fold_max:
  "0 < c \<Longrightarrow> fold fl_max (map (fl_mul (Fin c)) xs) (fl_mul (Fin c) x) = fl_mul (Fin c) (fold fl_max xs x)"
proof (induction xs arbitrary: x)
  case Nil
  show ?case by simp
next
  case (Cons y ys)
  have "fl_max (fl_mul (Fin c) y) (fl_mul (Fin c) x) = fl_mul (Fin c) (fl_max y x)"
    using Cons.prems by (rule scale_fl_max)
  then show ?case using Cons by simp
qed

lemma scale_np_max:
  "0 < c \<Longrightarrow> np_max (map (fl_mul (Fin c)) xs)
     = (case np_max xs of Inl e \<Rightarrow> Inl e | Inr mx \<Rightarrow> Inr (fl_mul (Fin c) mx))"
  by (cases xs) (simp_all add: scale_fold_max)

lemma flatten_scale3: "flatten (scale3 c v) = map (fl_mul (Fin c)) (flatten v)"
  by (simp add: flatten_def scale3_def map_concat)

lemma scale_fl_div:
  "0 < c \<Longrightarrow> fl_div (fl_mul (Fin c) a) (fl_mul (Fin c) b) = fl_div a b"
  by (cases a; cases b) (auto simp add: scale_fl inf_of_def sgn_mult mult_less_0_iff zero_less_mult_iff sgn_if)

lemma div_by_max_scale3: "0 < c \<Longrightarrow> div_by_max (scale3 c v) = div_by_max v"
proof -
  assume c: "0 < c"
  show ?thesis
  proof (cases "np_max (flatten v)")
    case (Inl e)
    then show ?thesis using c by (simp add: div_by_max_def flatten_scale3 scale_np_max)
  next
    case (Inr mx)
    have "map (map (map (\<lambda>x. fl_div x (fl_mul (Fin c) mx)))) (scale3 c v)
        = map (map (map (\<lambda>x. fl_div x mx))) v"
      using c by (simp add: scale3_def comp_def scale_fl_div)
    then show ?thesis using Inr c by (simp add: div_by_max_def flatten_scale3 scale_np_max)
  qed
qed

lemma div_by_max_error: "div_by_max v = Inl e \<Longrightarrow> e = ValueError"
  by (cases "flatten v") (simp_all add: div_by_max_def)

lemma map2_commute: "(\<And>x y. f x y = g y x) \<Longrightarrow> map2 f xs ys = map2 g ys xs"
proof (induction xs arbitrary: ys)
  case Nil
  show ?case by simp
next
  case (Cons x xs)
  then show ?case by (cases ys) simp_all
qed

lemma map2_3_commute:
  "map2 (map2 (map2 fl_mul)) X Y = map2 (map2 (map2 fl_mul)) Y X"
  by (intro map2_commute fl_mul_commute)

lemma np_compat_commute: "np_compat a b = np_compat b a"
  by (auto simp add: np_compat_def)

lemma bc_len_commute: "np_compat a b \<Longrightarrow> bc_len a b = bc_len b a"
  by (auto simp add: np_compat_def bc_len_def)

lemma np_mul3_commute: "np_mul3 A B = np_mul3 B A"
proof -
  obtain a b c where dA: "dims A = (a, b, c)" by (cases "dims A") auto
  obtain a' b' c' where dB: "dims B = (a', b', c')" by (cases "dims B") auto
  have eq: "(np_compat a' a \<and> np_compat b' b \<and> np_compat c' c)
      = (np_compat a a' \<and> np_compat b b' \<and> np_compat c c')"
    using np_compat_commute by blast
  show ?thesis
  proof (cases "np_compat a a' \<and> np_compat b b' \<and> np_compat c c'")
    case True
    have "bc_len a a' = bc_len a' a" "bc_len b b' = bc_len b' b" "bc_len c c' = bc_len c' c"
      using True by (simp_all add: bc_len_commute)
    then show ?thesis
      by (simp add: np_mul3_def dA dB eq True map2_3_commute)
  next
    case False
    show ?thesis by (simp add: np_mul3_def dA dB eq False)
  qed
qed

lemma effective_PSF_commute: "effective_PSF A B = effective_PSF B A"
proof (cases "div_by_max A")
  case (Inl e)
  then have e: "e = ValueError" by (rule div_by_max_error)
  show ?thesis
  proof (cases "div_by_max B")
    case (Inl e')
    then have "e' = ValueError" by (rule div_by_max_error)
    then show ?thesis using Inl \<open>div_by_max A = Inl e\<close> e by (simp add: effective_PSF_def)
  next
    case (Inr b)
    then show ?thesis using Inl e by (simp add: effective_PSF_def)
  qed
next
  case (Inr a)
  show ?thesis
  proof (cases "div_by_max B")
    case (Inl e')
    then have "e' = ValueError" by (rule div_by_max_error)
    then show ?thesis using Inl Inr by (simp add: effective_PSF_def)
  next
    case (Inr b)
    then show ?thesis using \<open>div_by_max A = Inr a\<close> by (simp add: effective_PSF_def np_mul3_commute)
  qed
qed

lemma cube_lengths:
  "cube n X \<Longrightarrow> length X = n"
  "cube n X \<Longrightarrow> i < n \<Longrightarrow> length (X ! i) = n"
  "cube n X \<Longrightarrow> i < n \<Longrightarrow> j < n \<Longrightarrow> length (X ! i ! j) = n"
  by (auto simp add: cube_def list_all_length)

lemma cube_dims: "cube n X \<Longrightarrow> 0 < n \<Longrightarrow> dims X = (n, n, n)"
proof -
  assume c: "cube n X" and n: "0 < n"
  obtain pl X' where X: "X = pl # X'" using cube_lengths(1) [OF c] n by (cases X) auto
  have "length pl = n" using cube_lengths(2) [OF c n] X by simp
  then obtain r pl' where pl: "pl = r # pl'" using n by (cases pl) auto
  have "length r = n" using cube_lengths(3) [OF c n n] X pl by simp
  then show ?thesis using X pl \<open>length pl = n\<close> cube_lengths(1) [OF c] by (simp add: dims_def)
qed

lemma cube_flatten_nonempty: "cube n X \<Longrightarrow> 0 < n \<Longrightarrow> flatten X \<noteq> []"
proof -
  assume c: "cube n X" and n: "0 < n"
  obtain pl X' where X: "X = pl # X'" using cube_lengths(1) [OF c] n by (cases X) auto
  have "length pl = n" using cube_lengths(2) [OF c n] X by simp
  then obtain r pl' where pl: "pl = r # pl'" using n by (cases pl) auto
  have "length r = n" using cube_lengths(3) [OF c n n] X pl by simp
  then have "r \<noteq> []" using n by auto
  then show ?thesis using X pl by (simp add: flatten_def)
qed

lemma cube_map3: "cube n X \<Longrightarrow> cube n (map (map (map f)) X)"
  by (simp add: cube_def list_all_length)

lemma bc_same: "length xs = n \<Longrightarrow> bc n xs = xs"
proof -
  assume l: "length xs = n"
  show ?thesis
  proof (cases "length xs = 1")
    case True
    then obtain x where "xs = [x]" by (cases xs) auto
    then show ?thesis using l [symmetric] by (simp add: bc_def)
  next
    case False
    then show ?thesis by (simp add: bc_def)
  qed
qed

lemma broadcast_to_same: "cube n X \<Longrightarrow> broadcast_to (n, n, n) X = X"
proof -
  assume c: "cube n X"
  have rows: "\<And>pl. pl \<in> set X \<Longrightarrow> map (bc n) pl = pl"
    using c by (intro map_idI bc_same) (auto simp add: cube_def list_all_iff)
  have planes: "map (\<lambda>pl. bc n (map (bc n) pl)) X = X"
  proof (rule map_idI)
    fix pl assume p: "pl \<in> set X"
    then have "length pl = n" using c by (auto simp add: cube_def list_all_iff)
    then show "bc n (map (bc n) pl) = pl" using rows [OF p] by (simp add: bc_same)
  qed
  show ?thesis using planes cube_lengths(1) [OF c] by (simp add: broadcast_to_def bc_same)
qed

lemma np_mul3_cube:
  assumes "cube n X" and "cube n Y" and "0 < n"
  shows "np_mul3 X Y = Inr (map2 (map2 (map2 fl_mul)) X Y)"
  using assms by (simp add: np_mul3_def cube_dims np_compat_def bc_len_def broadcast_to_same)

lemma map2_3_nth:
  assumes "cube n X" and "cube n Y" and "i < n" and "j < n" and "k < n"
  shows "map2 (map2 (map2 f)) X Y ! i ! j ! k = f (X ! i ! j ! k) (Y ! i ! j ! k)"
  using assms by (simp add: cube_lengths)

lemma effective_PSF_entries:
  assumes A: "cube n A" and B: "cube n B" and n: "0 < n"
  shows "\<exists>E ma mb. np_max (flatten A) = Inr ma \<and> np_max (flatten B) = Inr mb
           \<and> effective_PSF A B = Inr E
           \<and> (\<forall>i<n. \<forall>j<n. \<forall>k<n.
                 E ! i ! j ! k = fl_mul (fl_div (A ! i ! j ! k) ma) (fl_div (B ! i ! j ! k) mb))"
proof -
  obtain ma where ma: "np_max (flatten A) = Inr ma"
    using cube_flatten_nonempty [OF A n] by (cases "flatten A") auto
  obtain mb where mb: "np_max (flatten B) = Inr mb"
    using cube_flatten_nonempty [OF B n] by (cases "flatten B") auto
  let ?A = "map (map (map (\<lambda>x. fl_div x ma))) A"
  let ?B = "map (map (map (\<lambda>x. fl_div x mb))) B"
  have cA: "cube n ?A" and cB: "cube n ?B" using A B by (simp_all add: cube_map3)
  have E: "effective_PSF A B = Inr (map2 (map2 (map2 fl_mul)) ?A ?B)"
    using ma mb np_mul3_cube [OF cA cB n] by (simp add: effective_PSF_def div_by_max_def)
  have "map2 (map2 (map2 fl_mul)) ?A ?B ! i ! j ! k
          = fl_mul (fl_div (A ! i ! j ! k) ma) (fl_div (B ! i ! j ! k) mb)"
    if "i < n" "j < n" "k < n" for i j k
    using map2_3_nth [OF cA cB that] that cube_lengths [OF A] cube_lengths [OF B] by simp
  then show ?thesis using ma mb E by blast
qed

text \<open>
  C8. The effective PSF is commutative in its two arms; multiplying either arm by a
  positive constant before the normalisation leaves it unchanged; and for two volumes of
  the camera's shape each entry is the detection entry over the detection maximum times
  the illumination entry over the illumination maximum. (Real arithmetic with the
  infinities and not-a-number; rounding is idealised away.)
\<close>

theorem effective_PSF_product:
  "effective_PSF A B = effective_PSF B A
   \<and> (0 < c \<longrightarrow> effective_PSF (scale3 c A) B = effective_PSF A B
               \<and> effective_PSF A (scale3 c B) = effective_PSF A B)
   \<and> (cube n A \<and> cube n B \<and> 0 < n \<longrightarrow>
        (\<exists>E ma mb. np_max (flatten A) = Inr ma \<and> np_max (flatten B) = Inr mb
           \<and> effective_PSF A B = Inr E
           \<and> (\<forall>i<n. \<forall>j<n. \<forall>k<n.
                 E ! i ! j ! k = fl_mul (fl_div (A ! i ! j ! k) ma) (fl_div (B ! i ! j ! k) mb))))"
proof (intro conjI impI)
  show "effective_PSF A B = effective_PSF B A" by (rule effective_PSF_commute)
next
  assume c: "0 < c"
  show "effective_PSF (scale3 c A) B = effective_PSF A B"
    by (simp add: effective_PSF_def div_by_max_scale3 [OF c])
  show "effective_PSF A (scale3 c B) = effective_PSF A B"
    by (simp add: effective_PSF_def div_by_max_scale3 [OF c] cong: sum.case_cong)
next
  assume "cube n A \<and> cube n B \<and> 0 < n"
  then show "\<exists>E ma mb. np_max (flatten A) = Inr ma \<and> np_max (flatten B) = Inr mb
           \<and> effective_PSF A B = Inr E
           \<and> (\<forall>i<n. \<forall>j<n. \<forall>k<n.
                 E ! i ! j ! k = fl_mul (fl_div (A ! i ! j ! k) ma) (fl_div (B ! i ! j ! k) mb))"
    using effective_PSF_entries by blast
qed

theorem effective_PSF_product_witness:
  "effective_PSF volA volB = Inr [[[Fin (1 / 8), Fin (1 / 4)], [Fin 0, Fin (1 / 8)]],
                                  [[Fin (1 / 2), Fin 0], [Fin (1 / 8), Fin 0]]]
   \<and> effective_PSF volB volA = effective_PSF volA volB
   \<and> effective_PSF (scale3 3 volA) volB = effective_PSF volA volB
   \<and> effective_PSF volA (scale3 3 volB) = effective_PSF volA volB"
proof -
  have c: "cube 2 volA \<and> cube 2 volB \<and> (0::nat) < 2" by (simp add: cube_def volA_def volB_def)
  have v: "effective_PSF volA volB = Inr [[[Fin (1 / 8), Fin (1 / 4)], [Fin 0, Fin (1 / 8)]],
                                  [[Fin (1 / 2), Fin 0], [Fin (1 / 8), Fin 0]]]"
    by (simp add: effective_PSF_def div_by_max_def flatten_def volA_def volB_def fl_max_def
        np_mul3_def dims_def np_compat_def bc_len_def broadcast_to_def bc_def)
  show ?thesis
    using effective_PSF_product [of volA volB 3 2] effective_PSF_product [of volB volA 3 2] c v
    by simp
qed

subsection \<open>\<open>light_sheet\<close>: the aperture mask\<close>

lemma length_linspace: "length (linspace a b n) = n"
  by (simp add: linspace_def)

lemma mask_columns_before_nth:
  "i < length g \<Longrightarrow> j < length (g ! i) \<Longrightarrow>
   mask_columns_before M g ! i ! j = (if j < M then NaN else g ! i ! j)"
  by (auto simp add: mask_columns_before_def nth_append min_def)

lemma mask_columns_from_nth:
  "i < length g \<Longrightarrow> j < length (g ! i) \<Longrightarrow>
   mask_columns_from k g ! i ! j = (if j < k then g ! i ! j else NaN)"
  by (auto simp add: mask_columns_from_def nth_append)

lemma mask_columns_before_length:
  "length (mask_columns_before M g) = length g"
  "i < length g \<Longrightarrow> length (mask_columns_before M g ! i) = length (g ! i)"
  by (auto simp add: mask_columns_before_def min_def)

lemma mask_where_greater_nth:
  "i < length th \<Longrightarrow> j < length (th ! i) \<Longrightarrow>
   mask_where_greater th opening (map (map (\<lambda>t. Fin 1)) th) ! i ! j
     = (if fl_greater (th ! i ! j) (Fin opening) then NaN else Fin 1)"
  by (simp add: mask_where_greater_def)

lemma mask_where_greater_length:
  "length (mask_where_greater th opening (map (map (\<lambda>t. Fin 1)) th)) = length th"
  "i < length th \<Longrightarrow>
   length (mask_where_greater th opening (map (map (\<lambda>t. Fin 1)) th) ! i) = length (th ! i)"
  by (simp_all add: mask_where_greater_def)

text \<open>The mask of any angle grid: one column survives.\<close>

lemma aperture_mask_nth:
  assumes i: "i < length th" and j: "j < length (th ! i)"
  shows "aperture_mask th opening M ! i ! j
       = (if j = M \<and> \<not> fl_greater (th ! i ! j) (Fin opening) then Fin 1 else NaN)"
proof -
  let ?m1 = "mask_where_greater th opening (map (map (\<lambda>t. Fin 1)) th)"
  let ?m2 = "mask_columns_before M ?m1"
  have l1: "i < length ?m1" "j < length (?m1 ! i)"
    using i j by (simp_all add: mask_where_greater_length)
  have l2: "i < length ?m2" "j < length (?m2 ! i)"
    using l1 by (simp_all add: mask_columns_before_length)
  have "j < M \<or> j = M \<or> M + 1 \<le> j" by linarith
  then show ?thesis
    unfolding aperture_mask_def Let_def mask_columns_from_nth [OF l2] mask_columns_before_nth [OF l1]
      mask_where_greater_nth [OF i j]
    by auto
qed

lemma light_sheet_theta_length:
  "length (light_sheet_theta k ri opening n) = n"
  "i < n \<Longrightarrow> length (light_sheet_theta k ri opening n ! i) = n"
  by (simp_all add: light_sheet_theta_def Let_def radius_grid_def length_linspace)

lemma light_sheet_mask_eq:
  assumes "cam m = Some c" and "0 \<le> res c" and "lenses m = l0 # ls"
    and "ls_opening m = Some opening" and "ls_pol m = Some pol"
    and "pol = ''p'' \<or> pol = ''s'' \<or> pol = ''u''"
  shows "light_sheet_mask m =
     Inr (light_sheet_theta (k0 m) (RI l0) opening (nat (res c)),
          aperture_mask (light_sheet_theta (k0 m) (RI l0) opening (nat (res c))) opening
            (nat (res c) div 2))"
  using assms by (auto simp add: light_sheet_mask_def Let_def)

text \<open>
  C4 (as amended). The aperture mask of \<open>light_sheet\<close> invalidates exactly the pixels
  whose polar angle exceeds the light-sheet half-angle or that lie outside the single pixel
  column \<open>M = res // 2\<close> of the grid (a slit one pixel wide): every pixel of column \<open>M\<close>
  whose angle does not exceed the half-angle keeps the value 1, every other pixel is
  not-a-number.
\<close>

theorem light_sheet_mask_slit:
  assumes "cam m = Some c" and "0 \<le> res c" and "lenses m = l0 # ls"
    and "ls_opening m = Some opening" and "ls_pol m = Some pol"
    and "pol = ''p'' \<or> pol = ''s'' \<or> pol = ''u''"
  shows "\<exists>theta msk. light_sheet_mask m = Inr (theta, msk)
           \<and> (\<forall>i < nat (res c). \<forall>j < nat (res c).
                 msk ! i ! j =
                   (if j = nat (res c) div 2 \<and> \<not> fl_greater (theta ! i ! j) (Fin opening)
                    then Fin 1 else NaN))"
proof -
  let ?th = "light_sheet_theta (k0 m) (RI l0) opening (nat (res c))"
  have "aperture_mask ?th opening (nat (res c) div 2) ! i ! j =
      (if j = nat (res c) div 2 \<and> \<not> fl_greater (?th ! i ! j) (Fin opening) then Fin 1 else NaN)"
    if "i < nat (res c)" "j < nat (res c)" for i j
    using that by (intro aperture_mask_nth) (simp_all add: light_sheet_theta_length)
  then show ?thesis using light_sheet_mask_eq [OF assms] by blast
qed

text \<open>
  The claim as stated fails: on a grid of 5 by 5 pixels with a half-angle of 30 degrees the
  three pixels of the middle row in columns 1, 2 and 3 all have an angle below the
  half-angle; the middle one is valid and its two neighbours are not. The valid pixel lies
  between the two invalid ones, so no half-plane of the grid holds the first without one of
  the others.
\<close>

lemma linspace_5: "linspace (- 2) 2 5 = [- 2, - 1, 0, 1, 2]"
  by (simp add: linspace_def upt_rec)

lemma arcsin_quarter: "arcsin (1 / 4) \<le> pi / 6"
proof -
  have "arcsin (1 / 4) \<le> arcsin (sin (pi / 6))"
    by (intro arcsin_le_arcsin) (simp_all add: sin_30)
  also have "\<dots> = pi / 6" by (intro arcsin_sin) simp_all
  finally show ?thesis .
qed

lemma sysL_theta:
  "light_sheet_theta (k0 sysL) 1 (pi / 6) 5 ! 2 ! 1 = Fin (arcsin (1 / 4))"
  "light_sheet_theta (k0 sysL) 1 (pi / 6) 5 ! 2 ! 2 = Fin 0"
  "light_sheet_theta (k0 sysL) 1 (pi / 6) 5 ! 2 ! 3 = Fin (arcsin (1 / 4))"
  by (simp_all add: light_sheet_theta_def Let_def linspace_5 radius_grid_def sysL_def sys488_def sin_30)

lemma sysL_mask:
  "light_sheet_mask sysL =
     Inr (light_sheet_theta (k0 sysL) 1 (pi / 6) 5,
          aperture_mask (light_sheet_theta (k0 sysL) 1 (pi / 6) 5) (pi / 6) 2)"
  using light_sheet_mask_eq [of sysL "\<lparr>res = 5, vox = 2 / 10 ^ 6, offset = 100, RMS = 7 / 5\<rparr>" lensN "[]" "pi / 6" "''u''"]
  by (simp add: sysL_def sys488_def lensN_def)

lemma sysL_mask_entries:
  "aperture_mask (light_sheet_theta (k0 sysL) 1 (pi / 6) 5) (pi / 6) 2 ! 2 ! 1 = NaN"
  "aperture_mask (light_sheet_theta (k0 sysL) 1 (pi / 6) 5) (pi / 6) 2 ! 2 ! 2 = Fin 1"
  "aperture_mask (light_sheet_theta (k0 sysL) 1 (pi / 6) 5) (pi / 6) 2 ! 2 ! 3 = NaN"
  by (simp_all add: aperture_mask_nth light_sheet_theta_length sysL_theta fl_greater_def)

theorem light_sheet_mask_counterexample:
  "\<exists>theta msk. light_sheet_mask sysL = Inr (theta, msk)
     \<and> msk ! 2 ! 1 = NaN \<and> msk ! 2 ! 2 = Fin 1 \<and> msk ! 2 ! 3 = NaN
     \<and> \<not> fl_greater (theta ! 2 ! 1) (Fin (pi / 6))
     \<and> \<not> fl_greater (theta ! 2 ! 3) (Fin (pi / 6))
     \<and> \<not> half_plane_mask (linspace (- 2) 2 5) (pi / 6) theta msk"
proof -
  let ?th = "light_sheet_theta (k0 sysL) 1 (pi / 6) 5"
  let ?mk = "aperture_mask ?th (pi / 6) 2"
  have g: "\<not> fl_greater (?th ! 2 ! 1) (Fin (pi / 6))" "\<not> fl_greater (?th ! 2 ! 2) (Fin (pi / 6))"
    "\<not> fl_greater (?th ! 2 ! 3) (Fin (pi / 6))"
    unfolding sysL_theta fl_greater_def using arcsin_quarter by simp_all
  have "\<not> half_plane_mask (linspace (- 2) 2 5) (pi / 6) ?th ?mk"
  proof
    assume "half_plane_mask (linspace (- 2) 2 5) (pi / 6) ?th ?mk"
    then obtain a b c where h: "\<forall>i<length [- 2, - 1, 0, 1, 2 :: real].
        \<forall>j<length [- 2, - 1, 0, 1, 2 :: real]. (?mk ! i ! j = NaN) =
         (fl_greater (?th ! i ! j) (Fin (pi / 6))
          \<or> \<not> half_plane a b c ([- 2, - 1, 0, 1, 2] ! j) ([- 2, - 1, 0, 1, 2 :: real] ! i))"
      unfolding half_plane_mask_def linspace_5 by blast
    have "\<not> half_plane a b c (- 1) 0" using h [rule_format, of 2 1] g sysL_mask_entries by simp
    moreover have "\<not> half_plane a b c 1 0" using h [rule_format, of 2 3] g sysL_mask_entries by simp
    moreover have "half_plane a b c 0 0" using h [rule_format, of 2 2] g sysL_mask_entries by simp
    ultimately show False by (simp add: half_plane_def)
  qed
  then show ?thesis using sysL_mask sysL_mask_entries g by blast
qed

theorem light_sheet_mask_slit_witness:
  "\<exists>theta msk. light_sheet_mask sysL = Inr (theta, msk)
      \<and> msk ! 2 ! 2 = (if \<not> fl_greater (theta ! 2 ! 2) (Fin (pi / 6)) then Fin 1 else NaN)
      \<and> msk ! 2 ! 3 = NaN"
  using light_sheet_mask_slit [of sysL "\<lparr>res = 5, vox = 2 / 10 ^ 6, offset = 100, RMS = 7 / 5\<rparr>" lensN "[]" "pi / 6" "''u''"]
  by (fastforce simp add: sysL_def sys488_def)

subsection \<open>\<open>field_tracing_reverse\<close> and \<open>calculate_PSF\<close>: invalid pixels\<close>



lemma wavevector_NaN: "wavevector (NaN, ph) = (NaN, NaN, NaN)"
  by simp


lemma angles_of_NaN: "angles_of (NaN, NaN, NaN) = (NaN, NaN)"
  by simp































subsection \<open>\<open>calculate_PSF\<close>: the progress sink\<close>








end
